theory Spec2Isabelle
  imports Main
begin

section \<open>The line reader of the REPL: \<^verbatim>\<open>src/libcmd/repl-interacter.cc\<close>\<close>

subsection \<open>Signal state of the process\<close>

text \<open>
  A signal set (\<^verbatim>\<open>sigset_t\<close>) is a set of signal numbers; \<^verbatim>\<open>sigfillset\<close> gives the
  full set, \<^verbatim>\<open>sigemptyset\<close> the empty one.
\<close>

type_synonym sigset_t = "nat set"

definition SIGINT :: nat where
  "SIGINT = 2"

text \<open>
  What \<^verbatim>\<open>sa_handler\<close> can hold: the two standard dispositions, the handler of this file,
  or some other function of the program (told apart by a number).
\<close>

datatype sighandler = SIG_DFL | SIG_IGN | sigintHandler | OtherHandler nat

record sigaction_t =
  sa_handler :: sighandler
  sa_mask :: sigset_t
  sa_flags :: int

text \<open>
  The part of the process that \<^verbatim>\<open>getLine\<close> reads or writes: the disposition of SIGINT, the
  mask of blocked signals, whether a SIGINT is pending (generated while blocked and not
  yet delivered), the file-level variable \<^verbatim>\<open>g_signal_received\<close>, and what has been
  written to \<^verbatim>\<open>std::cout\<close>.
\<close>

record process =
  sigint_disposition :: sigaction_t
  signal_mask :: sigset_t
  sigint_pending :: bool
  g_signal_received :: int
  std_out :: string

text \<open>
  What the outside does during one call of \<^verbatim>\<open>getLine\<close>, in the order of the call: the
  return value of each of the four system calls (0 on success; the call changes nothing
  otherwise), the pointer \<^verbatim>\<open>readline\<close> returns (\<open>None\<close> is the null pointer), the value
  of the environment variable \<^verbatim>\<open>_NIX_TEST_REPL_ECHO\<close>, and whether a SIGINT is generated
  for the process at each point at which the handler of this file is installed:
  \<^item> \<open>sigint_after_install\<close>: after \<^verbatim>\<open>sigaction\<close> has installed the handler and before
    \<^verbatim>\<open>sigprocmask(SIG_UNBLOCK, ...)\<close>;
  \<^item> \<open>sigint_before_readline\<close>: after \<^verbatim>\<open>setupSignals\<close> and before \<^verbatim>\<open>readline\<close> is called;
  \<^item> \<open>sigint_during_readline\<close>: while \<^verbatim>\<open>readline\<close> is blocked;
  \<^item> \<open>sigint_after_readline\<close>: after \<^verbatim>\<open>readline\<close> has returned and before
    \<^verbatim>\<open>restoreSignals\<close>;
  \<^item> \<open>sigint_after_mask_restore\<close>: after \<^verbatim>\<open>sigprocmask(SIG_SETMASK, ...)\<close> has restored
    the mask and before \<^verbatim>\<open>sigaction\<close> restores the old disposition.

  A SIGINT generated before the handler is installed while the signal is blocked is the
  pending signal of the process on entry. What another disposition does with a SIGINT
  outside these points is not part of this file.
\<close>

record outside =
  rc_sigaction_install :: int
  sigint_after_install :: bool
  rc_sigprocmask_unblock :: int
  sigint_before_readline :: bool
  readline_result :: "string option"
  sigint_during_readline :: bool
  sigint_after_readline :: bool
  rc_sigprocmask_restore :: int
  sigint_after_mask_restore :: bool
  rc_sigaction_restore :: int
  env_NIX_TEST_REPL_ECHO :: "string option"

datatype exn = SysError string

datatype how = SIG_BLOCK | SIG_UNBLOCK | SIG_SETMASK

text \<open>
  \<^verbatim>\<open>sigaction(SIGINT, &act, &old)\<close>: on success the old disposition is stored through the
  third argument and the new one is installed; installing \<open>SIG_IGN\<close> discards a pending
  SIGINT. The result is the return value, what was written to \<^verbatim>\<open>old\<close> (nothing on
  failure), and the process.
\<close>

definition sigaction :: "int \<Rightarrow> sigaction_t \<Rightarrow> process \<Rightarrow> int \<times> sigaction_t option \<times> process" where
  "sigaction rc act p =
     (if rc \<noteq> 0 then (rc, None, p)
      else (0, Some (sigint_disposition p),
            p\<lparr>sigint_disposition := act,
              sigint_pending := sigint_pending p \<and> sa_handler act \<noteq> SIG_IGN\<rparr>))"

text \<open>
  The installed disposition runs on a SIGINT. The handler of the file is
  \<^verbatim>\<open>g_signal_received = signo\<close>; the variable has internal linkage, so no other
  disposition writes it. Inside \<^verbatim>\<open>getLine\<close> every delivery happens while the handler of
  the file is installed (the lemmas \<open>setupSignals_succeeds\<close>, \<open>arrives_handled\<close> and
  \<open>restoreSignals_succeeds\<close> below), so the other cases are not reached from it.
\<close>

definition handle_SIGINT :: "process \<Rightarrow> process" where
  "handle_SIGINT p =
     (case sa_handler (sigint_disposition p) of
        sigintHandler \<Rightarrow> p\<lparr>g_signal_received := int SIGINT\<rparr>
      | _ \<Rightarrow> p)"

text \<open>
  \<^verbatim>\<open>sigprocmask(how, &set, &oldset)\<close>: on success the old mask is stored through the third
  argument and the mask is changed; a pending SIGINT that the new mask no longer blocks is
  delivered before the call returns.
\<close>

definition sigprocmask :: "int \<Rightarrow> how \<Rightarrow> sigset_t \<Rightarrow> process \<Rightarrow> int \<times> sigset_t option \<times> process" where
  "sigprocmask rc h sset p =
     (if rc \<noteq> 0 then (rc, None, p)
      else
        (let m = (case h of
                    SIG_BLOCK \<Rightarrow> signal_mask p \<union> sset
                  | SIG_UNBLOCK \<Rightarrow> signal_mask p - sset
                  | SIG_SETMASK \<Rightarrow> sset)
         in (0, Some (signal_mask p),
             if sigint_pending p \<and> SIGINT \<notin> m
             then handle_SIGINT (p\<lparr>signal_mask := m, sigint_pending := False\<rparr>)
             else p\<lparr>signal_mask := m\<rparr>)))"

text \<open>
  A SIGINT generated for the process: it stays pending while the signal is blocked, and is
  delivered to the installed disposition otherwise.
\<close>

definition deliver_SIGINT :: "process \<Rightarrow> process" where
  "deliver_SIGINT p =
     (if SIGINT \<in> signal_mask p then p\<lparr>sigint_pending := True\<rparr>
      else handle_SIGINT p)"

definition arrives :: "bool \<Rightarrow> process \<Rightarrow> process" where
  "arrives b p = (if b then deliver_SIGINT p else p)"

text \<open>The external \<^verbatim>\<open>readline(prompt)\<close>: it blocks, a SIGINT may arrive, it returns a pointer.\<close>

definition readline :: "outside \<Rightarrow> string \<Rightarrow> process \<Rightarrow> string option \<times> process" where
  "readline out prompt p = (readline_result out, arrives (sigint_during_readline out) p)"

subsection \<open>\<^verbatim>\<open>promptForType\<close> and \<^verbatim>\<open>getLine\<close>\<close>

datatype ReplPromptType = ReplPrompt | ContinuationPrompt

fun promptForType :: "ReplPromptType \<Rightarrow> string" where
  "promptForType ReplPrompt = ''nix-repl> ''"
| "promptForType ContinuationPrompt = ''          ''"

text \<open>
  The lambda \<^verbatim>\<open>setupSignals\<close>: it returns the two locals \<^verbatim>\<open>old\<close> and
  \<^verbatim>\<open>savedSignalMask\<close>, or the exception it throws, with the process as it is then.
\<close>

definition setupSignals :: "outside \<Rightarrow> process \<Rightarrow> (exn + sigaction_t \<times> sigset_t) \<times> process" where
  "setupSignals out p =
     (let act = \<lparr>sa_handler = sigintHandler, sa_mask = UNIV, sa_flags = 0\<rparr> in
      case sigaction (rc_sigaction_install out) act p of
        (rc1, old, p1) \<Rightarrow>
          if rc1 \<noteq> 0 then (Inl (SysError ''installing handler for SIGINT''), p1)
          else
            (case sigprocmask (rc_sigprocmask_unblock out) SIG_UNBLOCK {SIGINT}
                    (arrives (sigint_after_install out) p1) of
               (rc2, savedSignalMask, p2) \<Rightarrow>
                 if rc2 \<noteq> 0 then (Inl (SysError ''unblocking SIGINT''), p2)
                 else (Inr (the old, the savedSignalMask), p2)))"

text \<open>The lambda \<^verbatim>\<open>restoreSignals\<close>.\<close>

definition restoreSignals :: "outside \<Rightarrow> sigaction_t \<Rightarrow> sigset_t \<Rightarrow> process \<Rightarrow> (exn + unit) \<times> process" where
  "restoreSignals out old savedSignalMask p =
     (case sigprocmask (rc_sigprocmask_restore out) SIG_SETMASK savedSignalMask p of
        (rc1, _, p1) \<Rightarrow>
          if rc1 \<noteq> 0 then (Inl (SysError ''restoring signals''), p1)
          else
            (case sigaction (rc_sigaction_restore out) old
                    (arrives (sigint_after_mask_restore out) p1) of
               (rc2, _, p2) \<Rightarrow>
                 if rc2 \<noteq> 0 then (Inl (SysError ''restoring handler for SIGINT''), p2)
                 else (Inr (), p2)))"

text \<open>
  \<^verbatim>\<open>getLine(input, promptType)\<close> on a POSIX build. The result is what the call returns or
  throws, the caller's \<^verbatim>\<open>input\<close> afterwards, and the process afterwards. The buffer
  \<^verbatim>\<open>s\<close> is freed on every path after \<^verbatim>\<open>readline\<close> (the \<^verbatim>\<open>Finally\<close>); memory is not part
  of the model.
\<close>

definition getLine :: "outside \<Rightarrow> string \<Rightarrow> ReplPromptType \<Rightarrow> process \<Rightarrow> (exn + bool) \<times> string \<times> process" where
  "getLine out input promptType p =
     (case setupSignals out p of
        (Inl e, p1) \<Rightarrow> (Inl e, input, p1)
      | (Inr (old, savedSignalMask), p1) \<Rightarrow>
          (case readline out (promptForType promptType)
                  (arrives (sigint_before_readline out) p1) of
             (s, p2) \<Rightarrow>
               (case restoreSignals out old savedSignalMask
                       (arrives (sigint_after_readline out) p2) of
                  (Inl e, p3) \<Rightarrow> (Inl e, input, p3)
                | (Inr _, p3) \<Rightarrow>
                    if g_signal_received p3 \<noteq> 0
                    then (Inr True, [], p3\<lparr>g_signal_received := 0\<rparr>)
                    else
                      (let p4 =
                         (if s \<noteq> None \<and> env_NIX_TEST_REPL_ECHO out = Some ''1''
                          then p3\<lparr>std_out := std_out p3 @ promptForType promptType @ the s @ [CHR 0x0A]\<rparr>
                          else p3)
                       in case s of
                            None \<Rightarrow> (Inr False, input, p4)
                          | Some line \<Rightarrow> (Inr True, input @ line @ [CHR 0x0A], p4)))))"

section \<open>CPU feature levels: \<^verbatim>\<open>src/libutil/compute-levels.cc\<close>\<close>

text \<open>
  \<^verbatim>\<open>nix_libutil_cpuid\<close> is external. It returns a null pointer (\<open>None\<close>) or a pointer to
  an array of C strings; the array is the list of its cells, a null cell being \<open>None\<close>.
  The loop \<^verbatim>\<open>for (size_t i = 0; value[i] != nullptr; i++) levels.insert(value[i])\<close>
  reads cell \<open>i\<close>; reading past the last cell of the array is undefined behaviour, the
  result \<open>None\<close> of the model. A \<^verbatim>\<open>StringSet\<close> is a \<^verbatim>\<open>std::set<std::string>\<close>.
\<close>

function levels_loop :: "string option list \<Rightarrow> nat \<Rightarrow> string set \<Rightarrow> string set option" where
  "levels_loop cells i levels =
     (if i < length cells
      then (case cells ! i of
              None \<Rightarrow> Some levels
            | Some s \<Rightarrow> levels_loop cells (Suc i) (insert s levels))
      else None)"
  by pat_completeness auto
termination
  by (relation "measure (\<lambda>(cells, i, levels). length cells - i)") auto

declare levels_loop.simps [simp del]

text \<open>
  The two builds of \<^verbatim>\<open>computeLevels\<close>: with \<^verbatim>\<open>HAVE_LIBCPUID\<close> the function calls
  \<^verbatim>\<open>nix_libutil_cpuid\<close> (its result is the second argument), without it the function
  returns the empty set.
\<close>

definition computeLevels :: "bool \<Rightarrow> string option list option \<Rightarrow> string set option" where
  "computeLevels HAVE_LIBCPUID cpuid =
     (if HAVE_LIBCPUID
      then (case cpuid of
              None \<Rightarrow> Some {}
            | Some cells \<Rightarrow> levels_loop cells 0 {})
      else Some {})"

text \<open>The strings of a null-terminated array: those of the cells before the first null cell.\<close>

definition strings_of :: "string option list \<Rightarrow> string set" where
  "strings_of cells = {s. Some s \<in> set (takeWhile (\<lambda>c. c \<noteq> None) cells)}"

section \<open>The Content Store\<close>

text \<open>
  Modelled from the spec: the Content Store is not among the source files; the
  definitions of this section follow sections 3 and 4.1 of the specification. An
  artifact's content is bytes or a directory tree. A StorePath is derived from the
  content's fingerprint and a human-readable name. The fingerprint function (a
  cryptographic digest over the canonical serialisation) is a parameter.
\<close>

datatype content = Bytes string | Tree "(string \<times> content) list"

type_synonym 'f StorePath = "'f \<times> string"

text \<open>
  Modelled from the spec: the state of the store, which is not among the source files.
  \<open>objects\<close> maps each installed path to its artifact; \<open>installs\<close> records every
  atomic rename that installed a staged object, in order.
\<close>

record 'f store =
  objects :: "'f StorePath \<rightharpoonup> content"
  installs :: "'f StorePath list"

text \<open>Modelled from the spec: \<^verbatim>\<open>exists(StorePath) -> bool\<close>, absent from the sources.\<close>

definition exists_path :: "'f store \<Rightarrow> 'f StorePath \<Rightarrow> bool" where
  "exists_path s p = (objects s p \<noteq> None)"

text \<open>
  Modelled from the spec: \<^verbatim>\<open>put(bytes-or-tree) -> StorePath\<close>, absent from the sources.
  The path is derived from the fingerprint of the content and the name; identical
  content returns the same path without rewriting; new content is staged and installed
  by one atomic rename.
\<close>

definition put :: "(content \<Rightarrow> 'f) \<Rightarrow> string \<Rightarrow> content \<Rightarrow> 'f store \<Rightarrow> 'f StorePath \<times> 'f store" where
  "put fingerprint name c s =
     (let p = (fingerprint c, name) in
      if exists_path s p then (p, s)
      else (p, s\<lparr>objects := (objects s)(p \<mapsto> c), installs := installs s @ [p]\<rparr>))"

section \<open>Properties of \<^verbatim>\<open>getLine\<close>\<close>

lemmas getLine_defs =
  getLine_def setupSignals_def restoreSignals_def readline_def arrives_def
  deliver_SIGINT_def handle_SIGINT_def sigaction_def sigprocmask_def SIGINT_def

text \<open>
  \<^verbatim>\<open>setupSignals\<close> when both system calls succeed: the handler is installed, SIGINT is
  unblocked, and a SIGINT that was pending on entry or arrived since the handler was
  installed has been delivered to it.
\<close>

lemma setupSignals_succeeds:
  assumes "rc_sigaction_install out = 0" and "rc_sigprocmask_unblock out = 0"
  shows "setupSignals out p
    = (Inr (sigint_disposition p, signal_mask p),
       p\<lparr>sigint_disposition := \<lparr>sa_handler = sigintHandler, sa_mask = UNIV, sa_flags = 0\<rparr>,
         signal_mask := signal_mask p - {SIGINT},
         sigint_pending := False,
         g_signal_received :=
           (if sigint_pending p \<or> sigint_after_install out then 2 else g_signal_received p)\<rparr>)"
  using assms
  by (simp add: setupSignals_def sigaction_def sigprocmask_def arrives_def deliver_SIGINT_def
      handle_SIGINT_def SIGINT_def Let_def)

text \<open>A SIGINT that arrives while the handler is installed and the signal unblocked.\<close>

lemma arrives_handled:
  assumes "SIGINT \<notin> signal_mask q" and "sa_handler (sigint_disposition q) = sigintHandler"
  shows "arrives b q = q\<lparr>g_signal_received := (if b then 2 else g_signal_received q)\<rparr>"
  using assms by (simp add: arrives_def deliver_SIGINT_def handle_SIGINT_def SIGINT_def)

text \<open>\<^verbatim>\<open>restoreSignals\<close> when both system calls succeed.\<close>

lemma restoreSignals_succeeds:
  assumes "rc_sigprocmask_restore out = 0" and "rc_sigaction_restore out = 0"
    and "\<not> sigint_pending q" and "sa_handler (sigint_disposition q) = sigintHandler"
  shows "restoreSignals out old saved q
    = (Inr (),
       q\<lparr>sigint_disposition := old,
         signal_mask := saved,
         sigint_pending :=
           sigint_after_mask_restore out \<and> SIGINT \<in> saved \<and> sa_handler old \<noteq> SIG_IGN,
         g_signal_received :=
           (if sigint_after_mask_restore out \<and> SIGINT \<notin> saved then 2 else g_signal_received q)\<rparr>)"
  using assms
  by (simp add: restoreSignals_def sigaction_def sigprocmask_def arrives_def deliver_SIGINT_def
      handle_SIGINT_def SIGINT_def Let_def)

text \<open>
  What \<^verbatim>\<open>getLine\<close> does when the four system calls succeed: the signal branch if
  \<^verbatim>\<open>g_signal_received\<close> is nonzero at the test, the result of \<^verbatim>\<open>readline\<close> otherwise.
\<close>

lemma getLine_when_calls_succeed:
  assumes "rc_sigaction_install out = 0" and "rc_sigprocmask_unblock out = 0"
    and "rc_sigprocmask_restore out = 0" and "rc_sigaction_restore out = 0"
  shows "getLine out input pt p =
    (if g_signal_received p \<noteq> 0 \<or> sigint_pending p
        \<or> sigint_after_install out \<or> sigint_before_readline out
        \<or> sigint_during_readline out \<or> sigint_after_readline out
        \<or> (sigint_after_mask_restore out \<and> SIGINT \<notin> signal_mask p)
     then (Inr True, [],
           p\<lparr>sigint_pending :=
               sigint_after_mask_restore out \<and> SIGINT \<in> signal_mask p
               \<and> sa_handler (sigint_disposition p) \<noteq> SIG_IGN,
             g_signal_received := 0\<rparr>)
     else (case readline_result out of
             None \<Rightarrow>
               (Inr False, input,
                p\<lparr>sigint_pending :=
                    sigint_after_mask_restore out \<and> SIGINT \<in> signal_mask p
                    \<and> sa_handler (sigint_disposition p) \<noteq> SIG_IGN\<rparr>)
           | Some line \<Rightarrow>
               (Inr True, input @ line @ [CHR 0x0A],
                p\<lparr>sigint_pending :=
                    sigint_after_mask_restore out \<and> SIGINT \<in> signal_mask p
                    \<and> sa_handler (sigint_disposition p) \<noteq> SIG_IGN,
                  std_out :=
                    (if env_NIX_TEST_REPL_ECHO out = Some ''1''
                     then std_out p @ promptForType pt @ line @ [CHR 0x0A]
                     else std_out p)\<rparr>)))"
  using assms
  by (simp add: getLine_def readline_def setupSignals_succeeds arrives_handled
      restoreSignals_succeeds SIGINT_def Let_def split: option.splits)

text \<open>
  When the four system calls succeed, \<^verbatim>\<open>getLine\<close> leaves the disposition of SIGINT and
  the signal mask as they were on entry.
\<close>

lemma getLine_restores_when_calls_succeed:
  assumes "rc_sigaction_install out = 0" and "rc_sigprocmask_unblock out = 0"
    and "rc_sigprocmask_restore out = 0" and "rc_sigaction_restore out = 0"
  shows "sigint_disposition (snd (snd (getLine out input pt p))) = sigint_disposition p
    \<and> signal_mask (snd (snd (getLine out input pt p))) = signal_mask p"
  using assms by (simp add: getLine_when_calls_succeed split: option.splits)

text \<open>When installing the handler fails, nothing has been changed.\<close>

lemma getLine_install_failure:
  assumes "rc_sigaction_install out \<noteq> 0"
  shows "getLine out input pt p = (Inl (SysError ''installing handler for SIGINT''), input, p)"
  using assms by (simp add: getLine_defs)

text \<open>
  C1 (restoration on every exit path). The claim fails on the path where
  \<^verbatim>\<open>sigaction\<close> has installed the handler and \<^verbatim>\<open>sigprocmask(SIG_UNBLOCK, ...)\<close> then
  fails: \<^verbatim>\<open>getLine\<close> throws \<open>SysError\<close> and the handler of this file stays installed in
  place of the disposition found on entry (here \<open>SIG_DFL\<close>).
\<close>

theorem getLine_unblock_failure_leaves_handler:
  "getLine
     \<lparr>rc_sigaction_install = 0, sigint_after_install = False,
      rc_sigprocmask_unblock = - 1, sigint_before_readline = False,
      readline_result = None, sigint_during_readline = False,
      sigint_after_readline = False, rc_sigprocmask_restore = 0,
      sigint_after_mask_restore = False, rc_sigaction_restore = 0,
      env_NIX_TEST_REPL_ECHO = None\<rparr>
     [] ReplPrompt
     \<lparr>sigint_disposition = \<lparr>sa_handler = SIG_DFL, sa_mask = {}, sa_flags = 0\<rparr>,
      signal_mask = {}, sigint_pending = False, g_signal_received = 0, std_out = []\<rparr>
   = (Inl (SysError ''unblocking SIGINT''), [],
      \<lparr>sigint_disposition = \<lparr>sa_handler = sigintHandler, sa_mask = UNIV, sa_flags = 0\<rparr>,
      signal_mask = {}, sigint_pending = False, g_signal_received = 0, std_out = []\<rparr>)"
  by (simp add: getLine_defs)

text \<open>
  The same happens when restoring the mask fails after \<^verbatim>\<open>readline\<close>: the exception
  leaves both the handler installed and SIGINT unblocked.
\<close>

lemma getLine_restore_failure_leaves_handler_and_mask:
  "getLine
     \<lparr>rc_sigaction_install = 0, sigint_after_install = False,
      rc_sigprocmask_unblock = 0, sigint_before_readline = False,
      readline_result = None, sigint_during_readline = False,
      sigint_after_readline = False, rc_sigprocmask_restore = - 1,
      sigint_after_mask_restore = False, rc_sigaction_restore = 0,
      env_NIX_TEST_REPL_ECHO = None\<rparr>
     [] ReplPrompt
     \<lparr>sigint_disposition = \<lparr>sa_handler = SIG_DFL, sa_mask = {}, sa_flags = 0\<rparr>,
      signal_mask = {SIGINT}, sigint_pending = False, g_signal_received = 0, std_out = []\<rparr>
   = (Inl (SysError ''restoring signals''), [],
      \<lparr>sigint_disposition = \<lparr>sa_handler = sigintHandler, sa_mask = UNIV, sa_flags = 0\<rparr>,
      signal_mask = {}, sigint_pending = False, g_signal_received = 0, std_out = []\<rparr>)"
  by (simp add: getLine_defs)

text \<open>
  Whenever the four system calls succeed and \<^verbatim>\<open>g_signal_received\<close> is nonzero at the
  test that follows \<^verbatim>\<open>restoreSignals\<close>, \<^verbatim>\<open>getLine\<close> takes the signal branch. That is so
  when the variable is nonzero on entry, when a SIGINT is pending on entry (unblocking
  delivers it to the handler just installed), and when a SIGINT arrives at a point where
  the handler runs.
\<close>

lemma getLine_signal_branch:
  assumes "rc_sigaction_install out = 0" and "rc_sigprocmask_unblock out = 0"
    and "rc_sigprocmask_restore out = 0" and "rc_sigaction_restore out = 0"
    and "g_signal_received p \<noteq> 0 \<or> sigint_pending p
         \<or> sigint_after_install out \<or> sigint_before_readline out
         \<or> sigint_during_readline out \<or> sigint_after_readline out
         \<or> (sigint_after_mask_restore out \<and> SIGINT \<notin> signal_mask p)"
  shows "fst (getLine out input pt p) = Inr True
       \<and> fst (snd (getLine out input pt p)) = []
       \<and> g_signal_received (snd (snd (getLine out input pt p))) = 0"
  using assms(5) by (simp add: getLine_when_calls_succeed [OF assms(1-4)])

text \<open>
  A SIGINT that is blocked and pending on entry: \<^verbatim>\<open>readline\<close> returns a line and no
  SIGINT arrives during the call, yet the input is emptied and the line dropped.
\<close>

lemma getLine_pending_on_entry:
  "getLine
     \<lparr>rc_sigaction_install = 0, sigint_after_install = False,
      rc_sigprocmask_unblock = 0, sigint_before_readline = False,
      readline_result = Some ''1 + 1'', sigint_during_readline = False,
      sigint_after_readline = False, rc_sigprocmask_restore = 0,
      sigint_after_mask_restore = False, rc_sigaction_restore = 0,
      env_NIX_TEST_REPL_ECHO = None\<rparr>
     ''x = '' ReplPrompt
     \<lparr>sigint_disposition = \<lparr>sa_handler = SIG_DFL, sa_mask = {}, sa_flags = 0\<rparr>,
      signal_mask = {SIGINT}, sigint_pending = True, g_signal_received = 0, std_out = []\<rparr>
   = (Inr True, [],
      \<lparr>sigint_disposition = \<lparr>sa_handler = SIG_DFL, sa_mask = {}, sa_flags = 0\<rparr>,
      signal_mask = {SIGINT}, sigint_pending = False, g_signal_received = 0, std_out = []\<rparr>)"
  by (simp add: getLine_defs)

text \<open>
  C8, as amended (a SIGINT during \<^verbatim>\<open>readline\<close>). In every call in which the handler
  is installed, SIGINT is unblocked, a SIGINT arrives while \<^verbatim>\<open>readline\<close> is blocked, and
  the mask and the handler are then restored successfully, \<^verbatim>\<open>getLine\<close> returns true, the
  caller's input is the empty string whatever it held, and \<^verbatim>\<open>g_signal_received\<close> is 0
  again; the disposition, the mask and the output are as on entry, and a SIGINT is
  pending afterwards only if a new one arrived after the mask was restored to one that
  blocks it (and the restored disposition does not ignore it). Unless that happened, a
  next call in which no SIGINT arrives (and the system calls succeed) does not take the
  signal branch: it returns true exactly when \<^verbatim>\<open>readline\<close> returns a line.
\<close>

theorem getLine_sigint_returns_true:
  assumes "rc_sigaction_install out = 0" and "rc_sigprocmask_unblock out = 0"
    and "sigint_during_readline out"
    and "rc_sigprocmask_restore out = 0" and "rc_sigaction_restore out = 0"
  shows "getLine out input pt p
           = (Inr True, [],
              p\<lparr>sigint_pending :=
                  sigint_after_mask_restore out \<and> SIGINT \<in> signal_mask p
                  \<and> sa_handler (sigint_disposition p) \<noteq> SIG_IGN,
                g_signal_received := 0\<rparr>)
       \<and> (\<not> (sigint_after_mask_restore out \<and> SIGINT \<in> signal_mask p
             \<and> sa_handler (sigint_disposition p) \<noteq> SIG_IGN) \<longrightarrow>
          (\<forall>out' input' pt'.
            rc_sigaction_install out' = 0 \<and> rc_sigprocmask_unblock out' = 0
            \<and> \<not> sigint_after_install out' \<and> \<not> sigint_before_readline out'
            \<and> \<not> sigint_during_readline out' \<and> \<not> sigint_after_readline out'
            \<and> \<not> sigint_after_mask_restore out'
            \<and> rc_sigprocmask_restore out' = 0 \<and> rc_sigaction_restore out' = 0 \<longrightarrow>
            fst (getLine out' input' pt' (snd (snd (getLine out input pt p))))
              = Inr (readline_result out' \<noteq> None)))"
proof -
  have first: "getLine out input pt p
           = (Inr True, [],
              p\<lparr>sigint_pending :=
                  sigint_after_mask_restore out \<and> SIGINT \<in> signal_mask p
                  \<and> sa_handler (sigint_disposition p) \<noteq> SIG_IGN,
                g_signal_received := 0\<rparr>)"
    using assms by (simp add: getLine_when_calls_succeed)
  have "fst (getLine out' input' pt' (p\<lparr>sigint_pending := False, g_signal_received := 0\<rparr>))
          = Inr (readline_result out' \<noteq> None)"
    if "rc_sigaction_install out' = 0" "rc_sigprocmask_unblock out' = 0"
      "\<not> sigint_after_install out'" "\<not> sigint_before_readline out'"
      "\<not> sigint_during_readline out'" "\<not> sigint_after_readline out'"
      "\<not> sigint_after_mask_restore out'"
      "rc_sigprocmask_restore out' = 0" "rc_sigaction_restore out' = 0"
    for out' input' pt'
    using that by (simp add: getLine_when_calls_succeed split: option.splits)
  with first show ?thesis
    by (cases "sigint_after_mask_restore out \<and> SIGINT \<in> signal_mask p
          \<and> sa_handler (sigint_disposition p) \<noteq> SIG_IGN") simp_all
qed

theorem getLine_sigint_returns_true_witness:
  "getLine
     \<lparr>rc_sigaction_install = 0, sigint_after_install = False,
      rc_sigprocmask_unblock = 0, sigint_before_readline = False,
      readline_result = Some ''1 +'', sigint_during_readline = True,
      sigint_after_readline = False, rc_sigprocmask_restore = 0,
      sigint_after_mask_restore = False, rc_sigaction_restore = 0,
      env_NIX_TEST_REPL_ECHO = None\<rparr>
     ''let x = 1;'' ContinuationPrompt
     \<lparr>sigint_disposition = \<lparr>sa_handler = SIG_DFL, sa_mask = {}, sa_flags = 0\<rparr>,
      signal_mask = {SIGINT}, sigint_pending = True, g_signal_received = 0, std_out = []\<rparr>
   = (Inr True, [],
      \<lparr>sigint_disposition = \<lparr>sa_handler = SIG_DFL, sa_mask = {}, sa_flags = 0\<rparr>,
      signal_mask = {SIGINT}, sigint_pending = False, g_signal_received = 0, std_out = []\<rparr>)
   \<and> fst (getLine
       \<lparr>rc_sigaction_install = 0, sigint_after_install = False,
      rc_sigprocmask_unblock = 0, sigint_before_readline = False,
      readline_result = None, sigint_during_readline = False,
      sigint_after_readline = False, rc_sigprocmask_restore = 0,
      sigint_after_mask_restore = False, rc_sigaction_restore = 0,
      env_NIX_TEST_REPL_ECHO = None\<rparr>
       [] ReplPrompt
       (snd (snd (getLine
         \<lparr>rc_sigaction_install = 0, sigint_after_install = False,
      rc_sigprocmask_unblock = 0, sigint_before_readline = False,
      readline_result = Some ''1 +'', sigint_during_readline = True,
      sigint_after_readline = False, rc_sigprocmask_restore = 0,
      sigint_after_mask_restore = False, rc_sigaction_restore = 0,
      env_NIX_TEST_REPL_ECHO = None\<rparr>
         ''let x = 1;'' ContinuationPrompt
         \<lparr>sigint_disposition = \<lparr>sa_handler = SIG_DFL, sa_mask = {}, sa_flags = 0\<rparr>,
      signal_mask = {SIGINT}, sigint_pending = True, g_signal_received = 0, std_out = []\<rparr>))))
     = Inr False"
proof -
  let ?out = "\<lparr>rc_sigaction_install = 0, sigint_after_install = False,
      rc_sigprocmask_unblock = 0, sigint_before_readline = False,
      readline_result = Some ''1 +'', sigint_during_readline = True,
      sigint_after_readline = False, rc_sigprocmask_restore = 0,
      sigint_after_mask_restore = False, rc_sigaction_restore = 0,
      env_NIX_TEST_REPL_ECHO = None\<rparr>"
  let ?next = "\<lparr>rc_sigaction_install = 0, sigint_after_install = False,
      rc_sigprocmask_unblock = 0, sigint_before_readline = False,
      readline_result = None, sigint_during_readline = False,
      sigint_after_readline = False, rc_sigprocmask_restore = 0,
      sigint_after_mask_restore = False, rc_sigaction_restore = 0,
      env_NIX_TEST_REPL_ECHO = None\<rparr>"
  let ?p = "\<lparr>sigint_disposition = \<lparr>sa_handler = SIG_DFL, sa_mask = {}, sa_flags = 0\<rparr>,
      signal_mask = {SIGINT}, sigint_pending = True, g_signal_received = 0, std_out = []\<rparr>"
  have both:
    "getLine ?out ''let x = 1;'' ContinuationPrompt ?p
       = (Inr True, [],
          ?p\<lparr>sigint_pending :=
               sigint_after_mask_restore ?out \<and> SIGINT \<in> signal_mask ?p
               \<and> sa_handler (sigint_disposition ?p) \<noteq> SIG_IGN,
            g_signal_received := 0\<rparr>)
     \<and> (\<not> (sigint_after_mask_restore ?out \<and> SIGINT \<in> signal_mask ?p
             \<and> sa_handler (sigint_disposition ?p) \<noteq> SIG_IGN) \<longrightarrow>
        (\<forall>out' input' pt'.
          rc_sigaction_install out' = 0 \<and> rc_sigprocmask_unblock out' = 0
          \<and> \<not> sigint_after_install out' \<and> \<not> sigint_before_readline out'
          \<and> \<not> sigint_during_readline out' \<and> \<not> sigint_after_readline out'
          \<and> \<not> sigint_after_mask_restore out'
          \<and> rc_sigprocmask_restore out' = 0 \<and> rc_sigaction_restore out' = 0 \<longrightarrow>
          fst (getLine out' input' pt' (snd (snd (getLine ?out ''let x = 1;'' ContinuationPrompt ?p))))
            = Inr (readline_result out' \<noteq> None)))"
    by (rule getLine_sigint_returns_true) simp_all
  from both have first:
    "getLine ?out ''let x = 1;'' ContinuationPrompt ?p
       = (Inr True, [],
          ?p\<lparr>sigint_pending :=
               sigint_after_mask_restore ?out \<and> SIGINT \<in> signal_mask ?p
               \<and> sa_handler (sigint_disposition ?p) \<noteq> SIG_IGN,
            g_signal_received := 0\<rparr>)"
    by (rule conjunct1)
  have "\<not> (sigint_after_mask_restore ?out \<and> SIGINT \<in> signal_mask ?p
             \<and> sa_handler (sigint_disposition ?p) \<noteq> SIG_IGN)"
    by simp
  with both have
    "rc_sigaction_install ?next = 0 \<and> rc_sigprocmask_unblock ?next = 0
     \<and> \<not> sigint_after_install ?next \<and> \<not> sigint_before_readline ?next
     \<and> \<not> sigint_during_readline ?next \<and> \<not> sigint_after_readline ?next
     \<and> \<not> sigint_after_mask_restore ?next
     \<and> rc_sigprocmask_restore ?next = 0 \<and> rc_sigaction_restore ?next = 0 \<longrightarrow>
     fst (getLine ?next [] ReplPrompt (snd (snd (getLine ?out ''let x = 1;'' ContinuationPrompt ?p))))
       = Inr (readline_result ?next \<noteq> None)"
    by blast
  then have second:
    "fst (getLine ?next [] ReplPrompt (snd (snd (getLine ?out ''let x = 1;'' ContinuationPrompt ?p))))
       = Inr False"
    by simp
  from first second show ?thesis by simp
qed

text \<open>
  The claim as stated fails: a SIGINT arrives while \<^verbatim>\<open>readline\<close> is blocked, restoring
  the mask fails, and \<^verbatim>\<open>getLine\<close> throws instead of returning true; the input keeps its
  contents and \<^verbatim>\<open>g_signal_received\<close> stays set to the signal number.
\<close>

theorem getLine_sigint_restore_failure:
  "getLine
     \<lparr>rc_sigaction_install = 0, sigint_after_install = False,
      rc_sigprocmask_unblock = 0, sigint_before_readline = False,
      readline_result = None, sigint_during_readline = True,
      sigint_after_readline = False, rc_sigprocmask_restore = - 1,
      sigint_after_mask_restore = False, rc_sigaction_restore = 0,
      env_NIX_TEST_REPL_ECHO = None\<rparr>
     ''let x = 1;'' ContinuationPrompt
     \<lparr>sigint_disposition = \<lparr>sa_handler = SIG_DFL, sa_mask = {}, sa_flags = 0\<rparr>,
      signal_mask = {}, sigint_pending = False, g_signal_received = 0, std_out = []\<rparr>
   = (Inl (SysError ''restoring signals''), ''let x = 1;'',
      \<lparr>sigint_disposition = \<lparr>sa_handler = sigintHandler, sa_mask = UNIV, sa_flags = 0\<rparr>,
      signal_mask = {}, sigint_pending = False, g_signal_received = 2, std_out = []\<rparr>)"
  by (simp add: getLine_defs)

text \<open>
  C9, as amended (no signal received). In every call in which no signal is received and
  the four system calls succeed: if \<^verbatim>\<open>readline\<close> returns a null pointer, \<^verbatim>\<open>getLine\<close>
  returns false and leaves the input as it was; if it returns a line, \<^verbatim>\<open>getLine\<close>
  returns true and the input is its former contents followed by the line and one newline
  character. No signal is received when \<^verbatim>\<open>g_signal_received\<close> is 0 on entry and the
  handler does not run during the call: no SIGINT is pending on entry, and none arrives
  while the handler is installed, unless it arrives after the mask has been restored to
  one that blocks it. These are all the calls that reach the test of
  \<^verbatim>\<open>g_signal_received\<close> with the variable 0 (the others: \<open>getLine_signal_branch\<close>).
\<close>

theorem getLine_no_signal:
  assumes "rc_sigaction_install out = 0" and "rc_sigprocmask_unblock out = 0"
    and "g_signal_received p = 0" and "\<not> sigint_pending p"
    and "\<not> sigint_after_install out" and "\<not> sigint_before_readline out"
    and "\<not> sigint_during_readline out" and "\<not> sigint_after_readline out"
    and "\<not> (sigint_after_mask_restore out \<and> SIGINT \<notin> signal_mask p)"
    and "rc_sigprocmask_restore out = 0" and "rc_sigaction_restore out = 0"
  shows "(readline_result out = None \<longrightarrow>
            fst (getLine out input pt p) = Inr False \<and>
            fst (snd (getLine out input pt p)) = input)
       \<and> (\<forall>line. readline_result out = Some line \<longrightarrow>
            fst (getLine out input pt p) = Inr True \<and>
            fst (snd (getLine out input pt p)) = input @ line @ [CHR 0x0A])"
proof -
  have "\<not> (g_signal_received p \<noteq> 0 \<or> sigint_pending p
        \<or> sigint_after_install out \<or> sigint_before_readline out
        \<or> sigint_during_readline out \<or> sigint_after_readline out
        \<or> (sigint_after_mask_restore out \<and> SIGINT \<notin> signal_mask p))"
    using assms by blast
  then show ?thesis
    by (simp only: getLine_when_calls_succeed [OF assms(1,2,10,11)] if_False)
       (simp split: option.splits)
qed

theorem getLine_no_signal_witness:
  "fst (getLine
     \<lparr>rc_sigaction_install = 0, sigint_after_install = False,
      rc_sigprocmask_unblock = 0, sigint_before_readline = False,
      readline_result = Some ''1 + 1'', sigint_during_readline = False,
      sigint_after_readline = False, rc_sigprocmask_restore = 0,
      sigint_after_mask_restore = True, rc_sigaction_restore = 0,
      env_NIX_TEST_REPL_ECHO = Some ''1''\<rparr>
     ''x = '' ReplPrompt
     \<lparr>sigint_disposition = \<lparr>sa_handler = SIG_DFL, sa_mask = {}, sa_flags = 0\<rparr>,
      signal_mask = {SIGINT}, sigint_pending = False, g_signal_received = 0, std_out = []\<rparr>) = Inr True
   \<and> fst (snd (getLine
     \<lparr>rc_sigaction_install = 0, sigint_after_install = False,
      rc_sigprocmask_unblock = 0, sigint_before_readline = False,
      readline_result = Some ''1 + 1'', sigint_during_readline = False,
      sigint_after_readline = False, rc_sigprocmask_restore = 0,
      sigint_after_mask_restore = True, rc_sigaction_restore = 0,
      env_NIX_TEST_REPL_ECHO = Some ''1''\<rparr>
     ''x = '' ReplPrompt
     \<lparr>sigint_disposition = \<lparr>sa_handler = SIG_DFL, sa_mask = {}, sa_flags = 0\<rparr>,
      signal_mask = {SIGINT}, sigint_pending = False, g_signal_received = 0, std_out = []\<rparr>)) = ''x = 1 + 1'' @ [CHR 0x0A]
   \<and> fst (getLine
     \<lparr>rc_sigaction_install = 0, sigint_after_install = False,
      rc_sigprocmask_unblock = 0, sigint_before_readline = False,
      readline_result = None, sigint_during_readline = False,
      sigint_after_readline = False, rc_sigprocmask_restore = 0,
      sigint_after_mask_restore = False, rc_sigaction_restore = 0,
      env_NIX_TEST_REPL_ECHO = None\<rparr>
     ''x = '' ReplPrompt
     \<lparr>sigint_disposition = \<lparr>sa_handler = SIG_DFL, sa_mask = {}, sa_flags = 0\<rparr>,
      signal_mask = {}, sigint_pending = False, g_signal_received = 0, std_out = []\<rparr>) = Inr False
   \<and> fst (snd (getLine
     \<lparr>rc_sigaction_install = 0, sigint_after_install = False,
      rc_sigprocmask_unblock = 0, sigint_before_readline = False,
      readline_result = None, sigint_during_readline = False,
      sigint_after_readline = False, rc_sigprocmask_restore = 0,
      sigint_after_mask_restore = False, rc_sigaction_restore = 0,
      env_NIX_TEST_REPL_ECHO = None\<rparr>
     ''x = '' ReplPrompt
     \<lparr>sigint_disposition = \<lparr>sa_handler = SIG_DFL, sa_mask = {}, sa_flags = 0\<rparr>,
      signal_mask = {}, sigint_pending = False, g_signal_received = 0, std_out = []\<rparr>)) = ''x = ''"
  using
    getLine_no_signal
      [of "\<lparr>rc_sigaction_install = 0, sigint_after_install = False,
      rc_sigprocmask_unblock = 0, sigint_before_readline = False,
      readline_result = Some ''1 + 1'', sigint_during_readline = False,
      sigint_after_readline = False, rc_sigprocmask_restore = 0,
      sigint_after_mask_restore = True, rc_sigaction_restore = 0,
      env_NIX_TEST_REPL_ECHO = Some ''1''\<rparr>"
          "\<lparr>sigint_disposition = \<lparr>sa_handler = SIG_DFL, sa_mask = {}, sa_flags = 0\<rparr>,
      signal_mask = {SIGINT}, sigint_pending = False, g_signal_received = 0, std_out = []\<rparr>"
          "''x = ''" ReplPrompt]
    getLine_no_signal
      [of "\<lparr>rc_sigaction_install = 0, sigint_after_install = False,
      rc_sigprocmask_unblock = 0, sigint_before_readline = False,
      readline_result = None, sigint_during_readline = False,
      sigint_after_readline = False, rc_sigprocmask_restore = 0,
      sigint_after_mask_restore = False, rc_sigaction_restore = 0,
      env_NIX_TEST_REPL_ECHO = None\<rparr>"
          "\<lparr>sigint_disposition = \<lparr>sa_handler = SIG_DFL, sa_mask = {}, sa_flags = 0\<rparr>,
      signal_mask = {}, sigint_pending = False, g_signal_received = 0, std_out = []\<rparr>"
          "''x = ''" ReplPrompt]
  by (simp add: SIGINT_def)

text \<open>
  The claim as stated fails: no signal is received, \<^verbatim>\<open>readline\<close> returns a line, restoring
  the mask fails, and \<^verbatim>\<open>getLine\<close> throws; it returns neither true nor false, and the line
  is not appended to the input.
\<close>

theorem getLine_no_signal_restore_failure:
  "getLine
     \<lparr>rc_sigaction_install = 0, sigint_after_install = False,
      rc_sigprocmask_unblock = 0, sigint_before_readline = False,
      readline_result = Some ''1 + 1'', sigint_during_readline = False,
      sigint_after_readline = False, rc_sigprocmask_restore = - 1,
      sigint_after_mask_restore = False, rc_sigaction_restore = 0,
      env_NIX_TEST_REPL_ECHO = None\<rparr>
     ''x = '' ReplPrompt
     \<lparr>sigint_disposition = \<lparr>sa_handler = SIG_DFL, sa_mask = {}, sa_flags = 0\<rparr>,
      signal_mask = {}, sigint_pending = False, g_signal_received = 0, std_out = []\<rparr>
   = (Inl (SysError ''restoring signals''), ''x = '',
      \<lparr>sigint_disposition = \<lparr>sa_handler = sigintHandler, sa_mask = UNIV, sa_flags = 0\<rparr>,
      signal_mask = {}, sigint_pending = False, g_signal_received = 0, std_out = []\<rparr>)"
  by (simp add: getLine_defs)

text \<open>With \<^verbatim>\<open>_NIX_TEST_REPL_ECHO=1\<close> the prompt and the line are echoed to \<^verbatim>\<open>std::cout\<close>.\<close>

lemma getLine_echo:
  assumes "rc_sigaction_install out = 0" and "rc_sigprocmask_unblock out = 0"
    and "g_signal_received p = 0" and "\<not> sigint_pending p"
    and "\<not> sigint_after_install out" and "\<not> sigint_before_readline out"
    and "\<not> sigint_during_readline out" and "\<not> sigint_after_readline out"
    and "\<not> sigint_after_mask_restore out"
    and "rc_sigprocmask_restore out = 0" and "rc_sigaction_restore out = 0"
    and "readline_result out = Some line" and "env_NIX_TEST_REPL_ECHO out = Some ''1''"
  shows "std_out (snd (snd (getLine out input pt p)))
         = std_out p @ promptForType pt @ line @ [CHR 0x0A]"
  using assms by (simp add: getLine_when_calls_succeed)

section \<open>Properties of \<^verbatim>\<open>computeLevels\<close>\<close>

text \<open>
  From cell \<open>i\<close> of an array with a null cell at or after \<open>i\<close>, the loop ends at the first
  such cell, having inserted the strings of the cells before it.
\<close>

lemma levels_loop_terminated:
  "None \<in> set (drop i cells) \<Longrightarrow>
   levels_loop cells i acc
     = Some (acc \<union> {s. Some s \<in> set (takeWhile (\<lambda>c. c \<noteq> None) (drop i cells))})"
proof (induction cells i acc rule: levels_loop.induct)
  case (1 cells i levels)
  show ?case
  proof (cases "i < length cells")
    case False
    with "1.prems" show ?thesis by simp
  next
    case True
    then have d: "drop i cells = cells ! i # drop (Suc i) cells"
      by (simp add: Cons_nth_drop_Suc)
    show ?thesis
    proof (cases "cells ! i")
      case None
      with True d show ?thesis by (simp add: levels_loop.simps [of cells i])
    next
      case (Some s)
      with "1.prems" d have "None \<in> set (drop (Suc i) cells)" by simp
      with "1.IH" [OF True Some] Some True d show ?thesis
        by (auto simp add: levels_loop.simps [of cells i])
    qed
  qed
qed

text \<open>
  C10 (\<^verbatim>\<open>computeLevels\<close> is total). Built without libcpuid the function returns the
  empty set; built with it, a null pointer from \<^verbatim>\<open>nix_libutil_cpuid\<close> gives the empty set,
  and a null-terminated array gives exactly the set of its strings (a string that occurs
  several times is one element of the set).
\<close>

theorem computeLevels_total:
  "computeLevels False cpuid = Some {}
   \<and> computeLevels True None = Some {}
   \<and> (None \<in> set cells \<longrightarrow> computeLevels True (Some cells) = Some (strings_of cells))"
  using levels_loop_terminated [of 0 cells "{}"]
  by (simp add: computeLevels_def strings_of_def)

theorem computeLevels_total_witness:
  "None \<in> set [Some ''avx2'', Some ''sse4'', Some ''avx2'', None, Some ''x'']
   \<and> computeLevels True (Some [Some ''avx2'', Some ''sse4'', Some ''avx2'', None, Some ''x''])
       = Some {''avx2'', ''sse4''}
   \<and> card {''avx2'', ''sse4''} = 2
   \<and> computeLevels False (Some [Some ''avx2'']) = Some {}
   \<and> computeLevels True None = Some {}"
proof -
  have s: "strings_of [Some ''avx2'', Some ''sse4'', Some ''avx2'', None, Some ''x'']
           = {''avx2'', ''sse4''}"
    by (auto simp add: strings_of_def)
  show ?thesis
    using computeLevels_total
      [of "Some [Some ''avx2'']" "[Some ''avx2'', Some ''sse4'', Some ''avx2'', None, Some ''x'']"]
    by (simp add: s)
qed

section \<open>Properties of the Content Store\<close>

lemma put_installs_at_most_once:
  "installs (snd (put fingerprint name c s)) = installs s
   \<or> installs (snd (put fingerprint name c s)) = installs s @ [fst (put fingerprint name c s)]"
  by (simp add: put_def Let_def)

text \<open>
  C7 (content addressing, idempotence). The path \<^verbatim>\<open>put\<close> returns depends on the content
  (and the name) only, not on the store, so two puts of identical content return the
  same path; and a second \<^verbatim>\<open>put\<close> of the same content returns that path and leaves the
  store, with its record of installs, exactly as the first left it.
\<close>

theorem put_idempotent:
  "fst (put fingerprint name c s) = fst (put fingerprint name c s')
   \<and> put fingerprint name c (snd (put fingerprint name c s))
       = (fst (put fingerprint name c s), snd (put fingerprint name c s))"
  by (simp add: put_def exists_path_def Let_def)


end
